theory Spec2Isabelle
  imports Main "HOL-Library.Sublist"
begin

section \<open>Values exchanged with the model and the workflow store\<close>

text \<open>
  Tool arguments arrive from the model as JSON values, and request bodies are JSON values.
  An object is an association list in key order; an absent key (JavaScript's
  \<open>undefined\<close>) is \<open>None\<close> of \<open>json option\<close>. The program never
  computes with a number, it can only print one, so a number is held as the text that
  JavaScript prints for it (\<open>String(n)\<close>: \<open>42\<close>, \<open>0.5\<close>, \<open>1e+21\<close>).
\<close>

datatype json =
    JNull
  | JBool bool
  | JNum string
  | JStr string
  | JArr "json list"
  | JObj "(string \<times> json) list"

text \<open>Property access \<open>input.k\<close> on a value that is not \<open>null\<close>.\<close>

fun field :: "json \<Rightarrow> string \<Rightarrow> json option" where
  "field (JObj kvs) k = map_of kvs k"
| "field _ k = None"

section \<open>Schemas (the declarations of tools.ts) and their validation\<close>

text \<open>
  The schema declarations are \<open>z.string()\<close>, \<open>z.array(z.string())\<close>,
  \<open>z.enum([...])\<close> and \<open>z.object({...})\<close>. Each constructor below carries exactly
  what the declaration gives: an array schema carries its element schema and no length
  bound, because the source declares none.
\<close>

datatype zod =
    ZString
  | ZArray zod
  | ZEnum "string list"
  | ZObject "(string \<times> zod) list"

datatype seg = Key string | Index nat

datatype problem =
    Required
  | InvalidType string
  | InvalidEnumValue "string list"

datatype issue = Issue (path: "seg list") (problem: problem)

definition under :: "seg \<Rightarrow> issue list + 'a \<Rightarrow> issue list + 'a" where
  "under s r = (case r of
      Inl is \<Rightarrow> Inl (map (\<lambda>i. Issue (s # path i) (problem i)) is)
    | Inr v \<Rightarrow> Inr v)"

fun collect :: "(issue list + 'a) list \<Rightarrow> issue list + 'a list" where
  "collect [] = Inr []"
| "collect (r # rs) = (case (r, collect rs) of
      (Inr v, Inr vs) \<Rightarrow> Inr (v # vs)
    | (Inr v, Inl js) \<Rightarrow> Inl js
    | (Inl is, Inr vs) \<Rightarrow> Inl is
    | (Inl is, Inl js) \<Rightarrow> Inl (is @ js))"

text \<open>
  Modelled from the spec: the validator that interprets a schema declaration (the zod
  library) is not among the sources. Following sections 4.1 and 7 of the specification, a
  value is checked against the declared shape without coercion: a declared field that is
  absent is a validation error (\<open>Required\<close>), a value of another type or outside the
  enumeration is a validation error, and the valid result holds the declared fields only.
  Nothing is checked that the declaration does not state.
\<close>

fun safeParse :: "zod \<Rightarrow> json option \<Rightarrow> issue list + json" where
  "safeParse ZString v = (case v of
      None \<Rightarrow> Inl [Issue [] Required]
    | Some (JStr s) \<Rightarrow> Inr (JStr s)
    | Some _ \<Rightarrow> Inl [Issue [] (InvalidType ''string'')])"
| "safeParse (ZEnum vs) v = (case v of
      None \<Rightarrow> Inl [Issue [] Required]
    | Some (JStr s) \<Rightarrow>
        if s \<in> set vs then Inr (JStr s) else Inl [Issue [] (InvalidEnumValue vs)]
    | Some _ \<Rightarrow> Inl [Issue [] (InvalidType ''enum'')])"
| "safeParse (ZArray z) v = (case v of
      None \<Rightarrow> Inl [Issue [] Required]
    | Some (JArr xs) \<Rightarrow>
        (case collect (map (\<lambda>ix. under (Index (fst ix)) (safeParse z (Some (snd ix))))
                           (zip [0 ..< length xs] xs)) of
           Inl is \<Rightarrow> Inl is
         | Inr ys \<Rightarrow> Inr (JArr ys))
    | Some _ \<Rightarrow> Inl [Issue [] (InvalidType ''array'')])"
| "safeParse (ZObject fs) v = (case v of
      None \<Rightarrow> Inl [Issue [] Required]
    | Some (JObj kvs) \<Rightarrow>
        (case collect (map (\<lambda>kz. under (Key (fst kz)) (safeParse (snd kz) (map_of kvs (fst kz)))) fs) of
           Inl is \<Rightarrow> Inl is
         | Inr ys \<Rightarrow> Inr (JObj (zip (map fst fs) ys)))
    | Some _ \<Rightarrow> Inl [Issue [] (InvalidType ''object'')])"

definition itemSchema :: zod where
  "itemSchema = ZObject [(''title'', ZString), (''description'', ZString)]"

definition moveItemsSchema :: zod where
  "moveItemsSchema =
     ZObject [(''itemIds'', ZArray ZString), (''targetType'', ZEnum [''pending'', ''completed''])]"

section \<open>Messages\<close>

text \<open>
  An Action Request is a tool call of an assistant message: the operation's name, its
  arguments and the correlation identifier.
\<close>

datatype tool_call = ToolCall (call_name: string) (call_args: json) (call_id: string)

section \<open>Remote calls\<close>

datatype http_method = GET | POST | PATCH | DELETE

record http_request =
  verb :: http_method
  url :: string
  body :: "json option"

text \<open>
  An axios call is rejected on a transport error and on a status outside 2xx; the
  rejection is an exception in the handler that awaits it. Destructuring \<open>null\<close>
  is the other exception a handler can raise.
\<close>

datatype http_error = Transport string | Status nat

datatype fault = AxiosError http_error | TypeError

text \<open>
  An Action Result is the outcome of one Action Request. A message has a role and a
  content; an assistant message may carry tool calls (the field is optional), a
  tool-result message carries the correlation identifier and the outcome.
\<close>

datatype action_result =
    Succeeded string
  | UnknownOperation string
  | ValidationFailed "issue list"
  | CallFailed fault

datatype message =
    SystemMessage string
  | HumanMessage string
  | AIMessage string "tool_call list option"
  | ToolMessage string action_result

text \<open>
  What lies outside the program is a parameter: the workflow store behind axios
  (\<open>remote\<close>, a step function on an external state \<open>'w\<close> that answers a request
  with an error or with the response's data \<open>'d\<close>), \<open>JSON.stringify\<close> on response
  data, the clock behind \<open>new Date().toISOString()\<close>, loading the chat model
  named in the configuration (\<open>loadChatModel\<close>, which may fail), and the loaded
  model with its bound tools (given the model's name, the declarations of the tools and
  the messages, it fails or answers with the content and the tool calls of an assistant
  message).
\<close>

record ('w, 'd) env =
  remote :: "http_request \<Rightarrow> 'w \<Rightarrow> (http_error + 'd) \<times> 'w"
  json_stringify :: "'d \<Rightarrow> string"
  clock :: "'w \<Rightarrow> string \<times> 'w"
  load_chat_model :: "string \<Rightarrow> 'w \<Rightarrow> (string + unit) \<times> 'w"
  chat_model :: "string \<Rightarrow> (string \<times> string \<times> zod) list \<Rightarrow> message list \<Rightarrow> 'w
                   \<Rightarrow> (string + string \<times> tool_call list option) \<times> 'w"

text \<open>
  The program's view of the outside: the external state and the log of what the program
  has sent, in order.
\<close>

datatype event = Http http_request | Invoke "message list"

record 'w world =
  ext :: 'w
  log :: "event list"

definition API_BASE_URL :: string where
  "API_BASE_URL = ''http://localhost:3000/api/workflows''"

text \<open>Template literals: \<open>`${v}`\<close> for a value \<open>v\<close> that may be \<open>undefined\<close>.\<close>

fun join_comma :: "string list \<Rightarrow> string" where
  "join_comma [] = []"
| "join_comma [x] = x"
| "join_comma (x # y # r) = x @ '','' @ join_comma (y # r)"

fun to_string :: "json \<Rightarrow> string" where
  "to_string JNull = ''null''"
| "to_string (JBool b) = (if b then ''true'' else ''false'')"
| "to_string (JNum n) = n"
| "to_string (JStr s) = s"
| "to_string (JArr xs) = join_comma (map (\<lambda>x. if x = JNull then [] else to_string x) xs)"
| "to_string (JObj kvs) = ''[object Object]''"

definition template :: "json option \<Rightarrow> string" where
  "template v = (case v of None \<Rightarrow> ''undefined'' | Some x \<Rightarrow> to_string x)"

text \<open>
  An object literal \<open>{k1, k2}\<close> sent as a request body: a property whose value is
  \<open>undefined\<close> is not serialized.
\<close>

definition object_literal :: "(string \<times> json option) list \<Rightarrow> json" where
  "object_literal ps = JObj (List.map_filter (\<lambda>(k, v). map_option (Pair k) v) ps)"

section \<open>The tools (tools.ts)\<close>

text \<open>
  \<open>axios.get/post/patch/delete\<close>: one request is sent, the store answers, and a
  failure is raised in the caller.
\<close>

definition axios :: "('w, 'd) env \<Rightarrow> http_request \<Rightarrow> 'w world \<Rightarrow> (fault + 'd) \<times> 'w world" where
  "axios E req w = (case remote E req (ext w) of
      (Inl e, x) \<Rightarrow> (Inl (AxiosError e), \<lparr>ext = x, log = log w @ [Http req]\<rparr>)
    | (Inr d, x) \<Rightarrow> (Inr d, \<lparr>ext = x, log = log w @ [Http req]\<rparr>))"

text \<open>\<open>return JSON.stringify(response.data)\<close> after an awaited call.\<close>

definition stringify_data :: "('w, 'd) env \<Rightarrow> (fault + 'd) \<times> 'w world \<Rightarrow> (fault + string) \<times> 'w world" where
  "stringify_data E r = (case r of
      (Inl e, w) \<Rightarrow> (Inl e, w)
    | (Inr d, w) \<Rightarrow> (Inr (json_stringify E d), w))"

type_synonym ('w, 'd) handler = "('w, 'd) env \<Rightarrow> json \<Rightarrow> 'w world \<Rightarrow> (fault + string) \<times> 'w world"

definition addPendingItem_func :: "('w, 'd) handler" where
  "addPendingItem_func E input w =
     stringify_data E
       (axios E \<lparr>verb = POST, url = API_BASE_URL @ ''/pending'', body = Some input\<rparr> w)"

definition addCompletedItem_func :: "('w, 'd) handler" where
  "addCompletedItem_func E input w =
     stringify_data E
       (axios E \<lparr>verb = POST, url = API_BASE_URL @ ''/completed'', body = Some input\<rparr> w)"

definition getPendingItems_func :: "('w, 'd) handler" where
  "getPendingItems_func E input w =
     stringify_data E
       (axios E \<lparr>verb = GET, url = API_BASE_URL @ ''/pending'', body = None\<rparr> w)"

definition getCompletedItems_func :: "('w, 'd) handler" where
  "getCompletedItems_func E input w =
     stringify_data E
       (axios E \<lparr>verb = GET, url = API_BASE_URL @ ''/completed'', body = None\<rparr> w)"

definition moveItems_func :: "('w, 'd) handler" where
  "moveItems_func E input w =
     (if input = JNull then (Inl TypeError, w)
      else
        let itemIds = field input ''itemIds'';
            targetType = field input ''targetType'';
            sourceType = (if targetType = Some (JStr ''completed'') then ''pending'' else ''completed'')
        in stringify_data E
             (axios E \<lparr>verb = PATCH, url = API_BASE_URL @ ''/'' @ sourceType,
                       body = Some (object_literal [(''itemIds'', itemIds), (''targetType'', targetType)])\<rparr> w))"

definition clearItems_func :: "('w, 'd) handler" where
  "clearItems_func E input w =
     (if input = JNull then (Inl TypeError, w)
      else
        let type = field input ''type''
        in stringify_data E
             (axios E \<lparr>verb = DELETE, url = API_BASE_URL @ ''/'' @ template type, body = None\<rparr> w))"

record ('w, 'd) tool =
  name :: string
  description :: string
  schema :: zod
  func :: "('w, 'd) handler"

definition addPendingItem :: "('w, 'd) tool" where
  "addPendingItem = \<lparr>name = ''add_pending_item'',
     description = ''Add a new pending workflow item'',
     schema = itemSchema, func = addPendingItem_func\<rparr>"

definition addCompletedItem :: "('w, 'd) tool" where
  "addCompletedItem = \<lparr>name = ''add_completed_item'',
     description = ''Add a new completed workflow item'',
     schema = itemSchema, func = addCompletedItem_func\<rparr>"

definition getPendingItems :: "('w, 'd) tool" where
  "getPendingItems = \<lparr>name = ''get_pending_items'',
     description = ''Get all pending workflow items'',
     schema = ZObject [], func = getPendingItems_func\<rparr>"

definition getCompletedItems :: "('w, 'd) tool" where
  "getCompletedItems = \<lparr>name = ''get_completed_items'',
     description = ''Get all completed workflow items'',
     schema = ZObject [], func = getCompletedItems_func\<rparr>"

definition moveItems :: "('w, 'd) tool" where
  "moveItems = \<lparr>name = ''move_items'',
     description = ''Move items between pending and completed states'',
     schema = moveItemsSchema, func = moveItems_func\<rparr>"

definition clearItems :: "('w, 'd) tool" where
  "clearItems = \<lparr>name = ''clear_items'',
     description = ''Clear all items of a specific type (pending or completed)'',
     schema = ZObject [(''type'', ZEnum [''pending'', ''completed''])], func = clearItems_func\<rparr>"

definition TOOLS :: "('w, 'd) tool list" where
  "TOOLS = [addPendingItem, addCompletedItem, getPendingItems, getCompletedItems,
            moveItems, clearItems]"

section \<open>The tool executor\<close>

text \<open>
  Modelled from the spec: the tool wrapper and the prebuilt ToolNode that the graph
  installs under the name "tools" are library code and not among the sources. Sections
  4.1, 4.2 and 7: for each request, in list order, look the operation up in the registry
  by name; if absent, the result signals an unknown operation and nothing is contacted;
  otherwise validate the arguments against the declared schema, a validation failure
  short-circuits the remote call and yields a result describing the failed fields;
  otherwise invoke, and capture a failure of the call as that request's own result. Every
  result carries the correlation identifier of its request.
\<close>

definition runTool :: "('w, 'd) env \<Rightarrow> tool_call \<Rightarrow> 'w world \<Rightarrow> message \<times> 'w world" where
  "runTool E c w = (case find (\<lambda>t. name t = call_name c) TOOLS of
      None \<Rightarrow> (ToolMessage (call_id c) (UnknownOperation (call_name c)), w)
    | Some t \<Rightarrow>
        (case safeParse (schema t) (Some (call_args c)) of
           Inl is \<Rightarrow> (ToolMessage (call_id c) (ValidationFailed is), w)
         | Inr input \<Rightarrow>
             (case func t E input w of
                (Inl e, w') \<Rightarrow> (ToolMessage (call_id c) (CallFailed e), w')
              | (Inr out, w') \<Rightarrow> (ToolMessage (call_id c) (Succeeded out), w'))))"

fun runTools :: "('w, 'd) env \<Rightarrow> tool_call list \<Rightarrow> 'w world \<Rightarrow> message list \<times> 'w world" where
  "runTools E [] w = ([], w)"
| "runTools E (c # cs) w =
     (case runTool E c w of (m, w') \<Rightarrow>
        (case runTools E cs w' of (ms, w'') \<Rightarrow> (m # ms, w'')))"

section \<open>The graph (graph.ts)\<close>

record state =
  messages :: "message list"

record configuration =
  systemPromptTemplate :: string
  model :: string

text \<open>
  \<open>String.prototype.replace\<close> with a string pattern: the first occurrence of the
  pattern is replaced; in the replacement, \<open>$$\<close> stands for a dollar sign,
  \<open>$&\<close> for the matched text, \<open>$`\<close> and \<open>$'\<close> for the text before and after
  the match. Without an occurrence the string is returned as it is.
\<close>

fun find_split :: "string \<Rightarrow> string \<Rightarrow> (string \<times> string) option" where
  "find_split pat [] = (if pat = [] then Some ([], []) else None)"
| "find_split pat (c # cs) =
     (if prefix pat (c # cs) then Some ([], drop (length pat) (c # cs))
      else map_option (\<lambda>(b, a). (c # b, a)) (find_split pat cs))"

fun substitution :: "string \<Rightarrow> string \<Rightarrow> string \<Rightarrow> string \<Rightarrow> string" where
  "substitution m b a [] = []"
| "substitution m b a [c] = [c]"
| "substitution m b a (c # d # r) =
     (if c = CHR ''$'' \<and> d = CHR ''$'' then CHR ''$'' # substitution m b a r
      else if c = CHR ''$'' \<and> d = CHR ''&'' then m @ substitution m b a r
      else if c = CHR ''$'' \<and> d = CHR 0x60 then b @ substitution m b a r
      else if c = CHR ''$'' \<and> d = CHR 0x27 then a @ substitution m b a r
      else c # substitution m b a (d # r))"

definition replace :: "string \<Rightarrow> string \<Rightarrow> string \<Rightarrow> string" where
  "replace str pat rep = (case find_split pat str of
      None \<Rightarrow> str
    | Some (b, a) \<Rightarrow> b @ substitution pat b a rep @ a)"

text \<open>
  The text of the system message after the configured template: the rest of the template
  literal of \<open>callModel\<close>, each line preceded by its line break.
\<close>

definition instruction_lines :: "string list" where
  \<open>instruction_lines = [
     '''',
     ''You are a workflow management assistant that helps users organize and track tasks.'',
     ''You have access to these tools:'',
     '''',
     ''1. add_pending_item: Create new tasks in the "to-do" state'',
     ''   - Requires: title and description'',
     ''   - Use for: Creating new tasks that need to be done'',
     '''',
     ''2. add_completed_item: Create new tasks in the "done" state'',
     ''   - Requires: title and description'',
     ''   - Use for: Recording already completed tasks'',
     '''',
     ''3. get_pending_items: List all pending/to-do tasks'',
     ''   - Use for: Checking what needs to be done'',
     ''   - Returns: List of pending tasks with IDs'',
     '''',
     ''4. get_completed_items: List all completed tasks'',
     ''   - Use for: Reviewing finished work'',
     ''   - Returns: List of completed tasks with IDs'',
     '''',
     ''5. move_items: Change task status between pending and completed'',
     ''   - Requires: itemIds (array of IDs) and targetType ("pending" or "completed")'',
     ''   - Use for: Marking tasks as done or reopening tasks'',
     '''',
     ''6. clear_items: Remove all items of a specific type'',
     ''   - Requires: type ("pending" or "completed")'',
     ''   - Use for: Bulk deletion of all pending or completed tasks'',
     ''   - Use with caution as this cannot be undone'',
     '''',
     ''Strategy for common scenarios:'',
     '''',
     ''1. When asked to create a task:'',
     ''   - Use add_pending_item for new work'',
     ''   - Use add_completed_item for finished work'',
     ''   - Always include both title and description'',
     '''',
     ''2. When asked about tasks:'',
     ''   - Use get_pending_items or get_completed_items'',
     ''   - Parse and summarize the JSON response'',
     ''   - List tasks with their IDs for reference'',
     '''',
     ''3. When updating task status:'',
     ''   - First get current tasks to confirm IDs'',
     ''   - Then use move_items with correct IDs and target state'',
     ''   - Confirm the change was successful'',
     '''',
     ''4. When handling multiple tasks:'',
     ''   - Process them in order'',
     ''   - Keep track of task IDs'',
     ''   - Provide clear summaries of actions taken'',
     '''',
     ''5. When clearing tasks:'',
     ''   - Always confirm with the user before using clear_items'',
     ''   - Specify which type (pending or completed) will be cleared'',
     ''   - Warn that this action cannot be undone'',
     '''',
     ''Always:'',
     ''- Confirm actions with clear responses'',
     ''- Include task IDs in your responses'',
     ''- Parse JSON responses into readable format'',
     ''- Ask for clarification if task details are unclear'',
     ''- Be cautious with destructive operations like clearing items'',
     '''',
     ''Response Format Guidelines:'',
     ''- Start with a brief summary (e.g., "Found 12 pending tasks, mostly related to code review")'',
     ''- Ask before showing detailed lists (e.g., "Would you like to see all items in detail?")'',
     ''- When listing items:'',
     ''  - Group similar items together'',
     ''  - Summarize repeated items (e.g., "8 PR review tasks")'',
     ''  - Only show full details when specifically requested'',
     ''- Keep responses concise and well-organized'',
     ''- Use natural language instead of rigid formatting'',
     ''- Avoid showing raw IDs unless necessary for a specific action'',
     '''',
     ''Remember to always use the correct input format for each tool as shown in the examples above.'']\<close>
definition instructions :: string where
  "instructions = concat (map (\<lambda>l. CHR 0x0A # l) instruction_lines)"

definition tool_declaration :: "('w, 'd) tool \<Rightarrow> string \<times> string \<times> zod" where
  "tool_declaration t = (name t, description t, schema t)"

text \<open>
  \<open>callModel\<close>: the model is loaded, the clock is read, the system message is built,
  the model is invoked on the system message followed by the messages of the state, and
  the update holds the response alone. The configuration is the one that
  \<open>ensureConfiguration\<close> returns. A failure to load or to invoke the model is raised
  to the caller of the graph.
\<close>

definition system_message :: "configuration \<Rightarrow> string \<Rightarrow> message" where
  "system_message configuration now =
     SystemMessage (replace (systemPromptTemplate configuration) ''{system_time}'' now @ instructions)"

definition callModel ::
  "('w, 'd) env \<Rightarrow> configuration \<Rightarrow> state \<Rightarrow> 'w world \<Rightarrow> (string + message list) \<times> 'w world" where
  "callModel E configuration s w =
     (case load_chat_model E (model configuration) (ext w) of
        (Inl e, x0) \<Rightarrow> (Inl e, \<lparr>ext = x0, log = log w\<rparr>)
      | (Inr u, x0) \<Rightarrow>
          (case clock E x0 of (now, x) \<Rightarrow>
             let input = system_message configuration now # messages s;
                 tools = map tool_declaration (TOOLS :: ('w, 'd) tool list)
             in (case chat_model E (model configuration) tools input x of
                   (Inl e, x') \<Rightarrow> (Inl e, \<lparr>ext = x', log = log w @ [Invoke input]\<rparr>)
                 | (Inr (content, calls), x') \<Rightarrow>
                     (Inr [AIMessage content calls],
                      \<lparr>ext = x', log = log w @ [Invoke input]\<rparr>))))"

text \<open>
  \<open>routeModelOutput\<close>. \<open>messages[messages.length - 1]\<close> is \<open>undefined\<close> on an
  empty array; \<open>?.\<close> passes \<open>undefined\<close> on; the condition is
  \<open>x || 0 > 0\<close>, in which \<open>>\<close> binds tighter than \<open>||\<close>.
\<close>

datatype jsval = Undefined | Number int | Boolean bool

fun truthy :: "jsval \<Rightarrow> bool" where
  "truthy Undefined = False"
| "truthy (Number n) = (n \<noteq> 0)"
| "truthy (Boolean b) = b"

definition js_or :: "jsval \<Rightarrow> jsval \<Rightarrow> jsval" where
  "js_or a b = (if truthy a then a else b)"

definition at_index :: "'a list \<Rightarrow> int \<Rightarrow> 'a option" where
  "at_index xs i = (if 0 \<le> i \<and> i < int (length xs) then Some (xs ! nat i) else None)"

fun tool_calls :: "message \<Rightarrow> tool_call list option" where
  "tool_calls (AIMessage content calls) = calls"
| "tool_calls _ = None"

definition tool_calls_length :: "message option \<Rightarrow> jsval" where
  "tool_calls_length lastMessage = (case lastMessage of
      None \<Rightarrow> Undefined
    | Some m \<Rightarrow> (case tool_calls m of
        None \<Rightarrow> Undefined
      | Some calls \<Rightarrow> Number (int (length calls))))"

definition routeModelOutput :: "state \<Rightarrow> string" where
  "routeModelOutput s =
     (let lastMessage = at_index (messages s) (int (length (messages s)) - 1)
      in if truthy (js_or (tool_calls_length lastMessage) (Boolean ((0::int) > 0)))
         then ''tools'' else ''__end__'')"

text \<open>
  Modelled from the spec: the reducer of the prebuilt MessagesAnnotation is library code
  and not among the sources. Sections 2 and 3: the output of a node is appended to the
  ordered message history.
\<close>

definition add_messages :: "state \<Rightarrow> message list \<Rightarrow> state" where
  "add_messages s update = s\<lparr>messages := messages s @ update\<rparr>"

text \<open>
  Modelled from the spec: the node "tools" (see the tool executor above) receives the
  Action Requests of the latest assistant message, which may be none (section 4.2).
\<close>

definition toolNode :: "('w, 'd) env \<Rightarrow> state \<Rightarrow> 'w world \<Rightarrow> message list \<times> 'w world" where
  "toolNode E s w =
     (case at_index (messages s) (int (length (messages s)) - 1) of
        Some (AIMessage content (Some calls)) \<Rightarrow> runTools E calls w
      | _ \<Rightarrow> ([], w))"

text \<open>
  The graph \<open>workflow\<close>: the edge from the start to \<open>callModel\<close>, the conditional
  edges from \<open>callModel\<close> chosen by \<open>routeModelOutput\<close>, and the edge from
  \<open>tools\<close> back to \<open>callModel\<close>. The engine that walks the edges is library
  code; the walk is the state machine of section 4.3 of the specification: after a model
  turn the router decides, after a tool turn the model is asked again, and the update of
  each node is merged into the state before the next node runs. The loop has no bound of
  its own, so a run is given the number of model turns it may take.
\<close>

datatype session_error = ModelFailure string | OutOfTurns | UnknownNode string

fun workflow ::
  "nat \<Rightarrow> ('w, 'd) env \<Rightarrow> configuration \<Rightarrow> state \<Rightarrow> 'w world \<Rightarrow> (session_error + state) \<times> 'w world" where
  "workflow 0 E configuration s w = (Inl OutOfTurns, w)"
| "workflow (Suc n) E configuration s w =
     (case callModel E configuration s w of
        (Inl e, w1) \<Rightarrow> (Inl (ModelFailure e), w1)
      | (Inr update, w1) \<Rightarrow>
          let s1 = add_messages s update; node = routeModelOutput s1
          in if node = ''tools'' then
               (case toolNode E s1 w1 of (results, w2) \<Rightarrow>
                  workflow n E configuration (add_messages s1 results) w2)
             else if node = ''__end__'' then (Inr s1, w1)
             else (Inl (UnknownNode node), w1))"

section \<open>Notions of the specification\<close>

text \<open>The correlation identifier of an Action Result; other messages have none.\<close>

definition correlation :: "message \<Rightarrow> string option" where
  "correlation m = (case m of ToolMessage i r \<Rightarrow> Some i | _ \<Rightarrow> None)"

text \<open>
  The Action Requests carried by the most recent message of a conversation: none when
  there is no message, or when the most recent message carries no tool calls.
\<close>

definition action_requests :: "state \<Rightarrow> tool_call list" where
  "action_requests s =
     (if messages s = [] then []
      else case tool_calls (last (messages s)) of None \<Rightarrow> [] | Some calls \<Rightarrow> calls)"

section \<open>A scripted environment\<close>

text \<open>
  A concrete environment on which the theorems below are instantiated. The external state
  counts the requests the store has received; the store rejects every POST with status
  500 and answers every other request with the requested address. The clock shows the
  count as seconds. The model asks for three actions on its first turn and gives a plain
  answer afterwards.
\<close>

fun dec :: "nat \<Rightarrow> string" where
  "dec n = (if n < 10 then [''0123456789'' ! n] else dec (n div 10) @ [''0123456789'' ! (n mod 10)])"

definition demo_call_1 :: tool_call where
  "demo_call_1 = ToolCall ''get_pending_items'' (JObj []) ''call_1''"

definition demo_call_2 :: tool_call where
  "demo_call_2 = ToolCall ''add_pending_item''
     (JObj [(''title'', JStr ''Review''), (''description'', JStr ''Review the report'')]) ''call_2''"

definition demo_call_3 :: tool_call where
  "demo_call_3 = ToolCall ''clear_items'' (JObj [(''type'', JStr ''pending'')]) ''call_3''"

definition demo_calls :: "tool_call list" where
  "demo_calls = [demo_call_1, demo_call_2, demo_call_3]"

definition demo_time :: "nat \<Rightarrow> string" where
  "demo_time n = ''2024-05-01T10:00:0'' @ dec n @ ''.000Z''"

definition demo_env :: "(nat, string) env" where
  "demo_env = \<lparr>
     remote = (\<lambda>req n. (if verb req = POST then Inl (Status 500) else Inr (url req), Suc n)),
     json_stringify = (\<lambda>d. d),
     clock = (\<lambda>n. (demo_time n, n)),
     load_chat_model = (\<lambda>model n. (Inr (), n)),
     chat_model = (\<lambda>model tools input n.
        (if length input \<le> 2 then Inr ([], Some demo_calls) else Inr (''Done.'', Some []), n))\<rparr>"

definition demo_configuration :: configuration where
  "demo_configuration =
     \<lparr>systemPromptTemplate = ''System time: {system_time}.'', model = ''test-model''\<rparr>"

definition demo_state :: state where
  "demo_state = \<lparr>messages = [HumanMessage ''What is pending?'']\<rparr>"

definition demo_world :: "nat world" where
  "demo_world = \<lparr>ext = 0, log = []\<rparr>"

definition demo_final :: state where
  "demo_final = \<lparr>messages =
     [HumanMessage ''What is pending?'',
      AIMessage [] (Some demo_calls),
      ToolMessage ''call_1'' (Succeeded ''http://localhost:3000/api/workflows/pending''),
      ToolMessage ''call_2'' (CallFailed (AxiosError (Status 500))),
      ToolMessage ''call_3'' (Succeeded ''http://localhost:3000/api/workflows/pending''),
      AIMessage ''Done.'' (Some [])]\<rparr>"

text \<open>
  The run of the scripted environment: the results of the three actions, and the world
  after the first model turn, after the tool turn and after the second model turn.
\<close>

definition demo_results :: "message list" where
  "demo_results =
     [ToolMessage ''call_1'' (Succeeded ''http://localhost:3000/api/workflows/pending''),
      ToolMessage ''call_2'' (CallFailed (AxiosError (Status 500))),
      ToolMessage ''call_3'' (Succeeded ''http://localhost:3000/api/workflows/pending'')]"

definition demo_model_world :: "nat world" where
  "demo_model_world =
     \<lparr>ext = 0, log = [Invoke [system_message demo_configuration (demo_time 0),
                                HumanMessage ''What is pending?'']]\<rparr>"

definition demo_tools_world :: "nat world" where
  "demo_tools_world =
     \<lparr>ext = 3,
      log = log demo_model_world @
        [Http \<lparr>verb = GET, url = ''http://localhost:3000/api/workflows/pending'', body = None\<rparr>,
         Http \<lparr>verb = POST, url = ''http://localhost:3000/api/workflows/pending'',
                body = Some (JObj [(''title'', JStr ''Review''),
                                   (''description'', JStr ''Review the report'')])\<rparr>,
         Http \<lparr>verb = DELETE, url = ''http://localhost:3000/api/workflows/pending'',
                body = None\<rparr>]\<rparr>"

definition demo_final_world :: "nat world" where
  "demo_final_world =
     \<lparr>ext = 3,
      log = log demo_tools_world @
        [Invoke (system_message demo_configuration (demo_time 3) #
                 HumanMessage ''What is pending?'' # AIMessage [] (Some demo_calls) #
                 demo_results)]\<rparr>"

definition demo_followup :: state where
  "demo_followup =
     \<lparr>messages = [HumanMessage ''What is pending?'', HumanMessage ''Anything else?'']\<rparr>"

text \<open>
  The condition of \<open>routeModelOutput\<close> as its comment intends it,
  \<open>(x || 0) > 0\<close>, for comparison with the condition as it is parsed.
\<close>

definition js_gt :: "jsval \<Rightarrow> int \<Rightarrow> bool" where
  "js_gt v k = (case v of
      Undefined \<Rightarrow> False
    | Number n \<Rightarrow> n > k
    | Boolean b \<Rightarrow> (if b then 1 else 0) > k)"

definition routeModelOutput_grouped :: "state \<Rightarrow> string" where
  "routeModelOutput_grouped s =
     (let lastMessage = at_index (messages s) (int (length (messages s)) - 1)
      in if js_gt (js_or (tool_calls_length lastMessage) (Number 0)) 0
         then ''tools'' else ''__end__'')"

section \<open>Basic facts\<close>

declare workflow.simps [simp del]

lemmas demo_calls_defs = demo_calls_def demo_call_1_def demo_call_2_def demo_call_3_def

lemma add_messages_eq: "add_messages s update = \<lparr>messages = messages s @ update\<rparr>"
  by (cases s) (simp add: add_messages_def)

lemma axios_log: "log (snd (axios E req w)) = log w @ [Http req]"
  by (simp add: axios_def split: prod.splits sum.splits)

lemma stringify_data_snd: "snd (stringify_data E r) = snd r"
  by (simp add: stringify_data_def split: prod.splits sum.splits)

lemma runTool_correlation: "correlation (fst (runTool E c w)) = Some (call_id c)"
  by (simp add: runTool_def correlation_def split: option.splits sum.splits prod.splits)

lemma runTools_correlation:
  "map correlation (fst (runTools E cs w)) = map (\<lambda>c. Some (call_id c)) cs"
proof (induction cs arbitrary: w)
  case Nil
  show ?case by simp
next
  case (Cons c cs)
  obtain m w' where m: "runTool E c w = (m, w')" by (cases "runTool E c w")
  obtain ms w'' where ms: "runTools E cs w' = (ms, w'')" by (cases "runTools E cs w'")
  from runTool_correlation [of E c w] m have "correlation m = Some (call_id c)" by simp
  moreover from Cons.IH [of w'] ms have "map correlation ms = map (\<lambda>c. Some (call_id c)) cs"
    by simp
  ultimately show ?case using m ms by simp
qed

lemma runTools_append:
  "runTools E (xs @ ys) w =
     (case runTools E xs w of (rs, w') \<Rightarrow>
        (case runTools E ys w' of (rs', w'') \<Rightarrow> (rs @ rs', w'')))"
  by (induction xs arbitrary: w) (auto split: prod.splits)

lemma at_index_last:
  "at_index xs (int (length xs) - 1) = (if xs = [] then None else Some (last xs))"
  by (cases xs rule: rev_cases) (auto simp: at_index_def nth_append)

lemma routeModelOutput_eq:
  "routeModelOutput s = (if action_requests s = [] then ''__end__'' else ''tools'')"
proof (cases "messages s = []")
  case True
  then show ?thesis
    by (simp add: routeModelOutput_def at_index_def tool_calls_length_def js_or_def
        action_requests_def)
next
  case False
  then have idx: "at_index (messages s) (int (length (messages s)) - 1) = Some (last (messages s))"
    by (simp add: at_index_last)
  from False have req: "action_requests s =
      (case tool_calls (last (messages s)) of None \<Rightarrow> [] | Some calls \<Rightarrow> calls)"
    by (simp add: action_requests_def)
  show ?thesis
    by (cases "tool_calls (last (messages s))")
       (simp_all add: routeModelOutput_def idx req tool_calls_length_def js_or_def)
qed

lemma toolNode_eq: "toolNode E s w = runTools E (action_requests s) w"
proof (cases "messages s = []")
  case True
  then show ?thesis
    by (simp add: toolNode_def at_index_def action_requests_def)
next
  case False
  then have idx: "at_index (messages s) (int (length (messages s)) - 1) = Some (last (messages s))"
    by (simp add: at_index_last)
  from False have req: "action_requests s =
      (case tool_calls (last (messages s)) of None \<Rightarrow> [] | Some calls \<Rightarrow> calls)"
    by (simp add: action_requests_def)
  show ?thesis
    by (cases "last (messages s)")
       (simp_all add: toolNode_def idx req split: option.splits)
qed

lemma workflow_tools_turn:
  assumes "callModel E cfg s w = (Inr update, w1)"
      and "action_requests (add_messages s update) \<noteq> []"
      and "runTools E (action_requests (add_messages s update)) w1 = (results, w2)"
  shows "workflow (Suc n) E cfg s w =
           workflow n E cfg (add_messages (add_messages s update) results) w2"
  using assms by (simp add: workflow.simps routeModelOutput_eq toolNode_eq Let_def)

lemma workflow_end_turn:
  assumes "callModel E cfg s w = (Inr update, w1)"
      and "action_requests (add_messages s update) = []"
  shows "workflow (Suc n) E cfg s w = (Inr (add_messages s update), w1)"
  using assms by (simp add: workflow.simps routeModelOutput_eq Let_def)

lemma demo_callModel:
  "callModel demo_env demo_configuration demo_state demo_world =
     (Inr [AIMessage [] (Some demo_calls)],
      \<lparr>ext = 0, log = [Invoke [system_message demo_configuration (demo_time 0),
                                 HumanMessage ''What is pending?'']]\<rparr>)"
  by (simp add: callModel_def demo_env_def demo_state_def demo_world_def)

lemma find_tools:
  "find (\<lambda>t. name t = ''add_pending_item'') (TOOLS :: ('w, 'd) tool list) = Some addPendingItem"
  "find (\<lambda>t. name t = ''add_completed_item'') (TOOLS :: ('w, 'd) tool list) = Some addCompletedItem"
  "find (\<lambda>t. name t = ''get_pending_items'') (TOOLS :: ('w, 'd) tool list) = Some getPendingItems"
  "find (\<lambda>t. name t = ''get_completed_items'') (TOOLS :: ('w, 'd) tool list) = Some getCompletedItems"
  "find (\<lambda>t. name t = ''move_items'') (TOOLS :: ('w, 'd) tool list) = Some moveItems"
  "find (\<lambda>t. name t = ''clear_items'') (TOOLS :: ('w, 'd) tool list) = Some clearItems"
  by (simp_all add: TOOLS_def addPendingItem_def addCompletedItem_def getPendingItems_def
      getCompletedItems_def moveItems_def clearItems_def)

lemma demo_runTools:
  "runTools demo_env demo_calls \<lparr>ext = 0, log = l\<rparr> =
     ([ToolMessage ''call_1'' (Succeeded ''http://localhost:3000/api/workflows/pending''),
       ToolMessage ''call_2'' (CallFailed (AxiosError (Status 500))),
       ToolMessage ''call_3'' (Succeeded ''http://localhost:3000/api/workflows/pending'')],
      \<lparr>ext = 3,
       log = l @
         [Http \<lparr>verb = GET, url = ''http://localhost:3000/api/workflows/pending'', body = None\<rparr>,
          Http \<lparr>verb = POST, url = ''http://localhost:3000/api/workflows/pending'',
                 body = Some (JObj [(''title'', JStr ''Review''),
                                    (''description'', JStr ''Review the report'')])\<rparr>,
          Http \<lparr>verb = DELETE, url = ''http://localhost:3000/api/workflows/pending'',
                 body = None\<rparr>]\<rparr>)"
  by (simp add: demo_calls_defs runTool_def find_tools getPendingItems_def addPendingItem_def
      clearItems_def getPendingItems_func_def addPendingItem_func_def clearItems_func_def
      itemSchema_def under_def stringify_data_def axios_def demo_env_def API_BASE_URL_def
      template_def Let_def)

text \<open>One turn of the loop, with the router's two answers.\<close>

lemma workflow_Suc_eq:
  "workflow (Suc n) E cfg s w =
     (case callModel E cfg s w of
        (Inl e, w1) \<Rightarrow> (Inl (ModelFailure e), w1)
      | (Inr update, w1) \<Rightarrow>
          if routeModelOutput (add_messages s update) = ''tools'' then
            (case toolNode E (add_messages s update) w1 of (results, w2) \<Rightarrow>
               workflow n E cfg (add_messages (add_messages s update) results) w2)
          else (Inr (add_messages s update), w1))"
  by (simp add: workflow.simps Let_def routeModelOutput_eq split: prod.splits sum.splits)

lemma demo_tool_turn:
  "runTools demo_env demo_calls demo_model_world = (demo_results, demo_tools_world)"
  by (simp add: demo_model_world_def demo_tools_world_def demo_results_def demo_runTools)

lemma demo_second_turn:
  "callModel demo_env demo_configuration
     \<lparr>messages = messages demo_state @ AIMessage [] (Some demo_calls) # demo_results\<rparr>
     demo_tools_world
   = (Inr [AIMessage ''Done.'' (Some [])], demo_final_world)"
  by (simp add: callModel_def demo_env_def demo_state_def demo_tools_world_def
      demo_final_world_def demo_results_def)

lemma demo_final_eq:
  "add_messages \<lparr>messages = messages demo_state @ AIMessage [] (Some demo_calls) # demo_results\<rparr>
     [AIMessage ''Done.'' (Some [])] = demo_final"
  by (simp add: add_messages_eq demo_state_def demo_results_def demo_final_def)

section \<open>Every Action Request receives its Action Result\<close>

text \<open>
  C1. In a loop iteration in which the response of the model carries the Action Requests
  \<open>calls\<close> (at least one), the tool executor produces one Action Result for each
  request, in the order of the requests and with the correlation identifier of its
  request, so that there are exactly as many results as requests. The response and these
  results are appended to the conversation, and what the run does next is to invoke the
  model on that conversation: the outcome of the run is decided by \<open>callModel\<close> on
  the extended conversation, in the world the tool executor left.
\<close>

theorem results_match_requests:
  assumes "callModel E cfg s w = (Inr [AIMessage content (Some calls)], w1)"
      and "calls \<noteq> []"
  shows "\<exists>results w2. runTools E calls w1 = (results, w2)
           \<and> map correlation results = map (\<lambda>c. Some (call_id c)) calls
           \<and> length results = length calls
           \<and> workflow (Suc n) E cfg s w =
               workflow n E cfg
                 \<lparr>messages = messages s @ AIMessage content (Some calls) # results\<rparr> w2
           \<and> workflow (Suc (Suc n)) E cfg s w =
               (case callModel E cfg
                       \<lparr>messages = messages s @ AIMessage content (Some calls) # results\<rparr> w2 of
                  (Inl e, w3) \<Rightarrow> (Inl (ModelFailure e), w3)
                | (Inr update, w3) \<Rightarrow>
                    if routeModelOutput
                         (add_messages
                            \<lparr>messages = messages s @ AIMessage content (Some calls) # results\<rparr>
                            update) = ''tools''
                    then
                      (case toolNode E
                              (add_messages
                                 \<lparr>messages = messages s @ AIMessage content (Some calls) # results\<rparr>
                                 update) w3 of
                         (results', w4) \<Rightarrow>
                           workflow n E cfg
                             (add_messages
                                (add_messages
                                   \<lparr>messages = messages s @ AIMessage content (Some calls) # results\<rparr>
                                   update) results') w4)
                    else
                      (Inr (add_messages
                              \<lparr>messages = messages s @ AIMessage content (Some calls) # results\<rparr>
                              update), w3))"
proof -
  obtain results w2 where run: "runTools E calls w1 = (results, w2)"
    by (cases "runTools E calls w1")
  let ?s2 = "\<lparr>messages = messages s @ AIMessage content (Some calls) # results\<rparr>"
  have req: "action_requests (add_messages s [AIMessage content (Some calls)]) = calls"
    by (simp add: action_requests_def add_messages_def)
  from runTools_correlation [of E calls w1] run
  have corr: "map correlation results = map (\<lambda>c. Some (call_id c)) calls" by simp
  then have len: "length results = length calls"
    by (metis length_map)
  have step: "workflow (Suc k) E cfg s w = workflow k E cfg ?s2 w2" for k
  proof -
    from workflow_tools_turn [OF assms(1), of results w2 k] req assms(2) run
    have "workflow (Suc k) E cfg s w =
          workflow k E cfg (add_messages (add_messages s [AIMessage content (Some calls)]) results) w2"
      by simp
    then show ?thesis by (simp add: add_messages_eq)
  qed
  have next_turn: "workflow (Suc (Suc n)) E cfg s w =
      (case callModel E cfg ?s2 w2 of
         (Inl e, w3) \<Rightarrow> (Inl (ModelFailure e), w3)
       | (Inr update, w3) \<Rightarrow>
           if routeModelOutput (add_messages ?s2 update) = ''tools'' then
             (case toolNode E (add_messages ?s2 update) w3 of (results', w4) \<Rightarrow>
                workflow n E cfg (add_messages (add_messages ?s2 update) results') w4)
           else (Inr (add_messages ?s2 update), w3))"
    by (simp only: step [of "Suc n"] workflow_Suc_eq [of n E cfg ?s2 w2])
  from run corr len step [of n] next_turn show ?thesis by blast
qed

theorem results_match_requests_witness:
  "runTools demo_env demo_calls demo_model_world = (demo_results, demo_tools_world)
   \<and> map correlation demo_results = map (\<lambda>c. Some (call_id c)) demo_calls
   \<and> length demo_results = length demo_calls
   \<and> workflow (Suc (Suc 0)) demo_env demo_configuration demo_state demo_world
       = (Inr demo_final, demo_final_world)
   \<and> last (log demo_final_world) =
       Invoke (system_message demo_configuration (demo_time 3) #
               messages demo_state @ AIMessage [] (Some demo_calls) # demo_results)"
proof -
  have ne: "demo_calls \<noteq> []" by (simp add: demo_calls_def)
  have turn: "callModel demo_env demo_configuration demo_state demo_world =
      (Inr [AIMessage [] (Some demo_calls)], demo_model_world)"
    using demo_callModel by (simp add: demo_model_world_def)
  from results_match_requests [OF turn ne, of 0]
  obtain results w2 where run: "runTools demo_env demo_calls demo_model_world = (results, w2)"
    and corr: "map correlation results = map (\<lambda>c. Some (call_id c)) demo_calls"
    and len: "length results = length demo_calls"
    and two: "workflow (Suc (Suc 0)) demo_env demo_configuration demo_state demo_world =
      (case callModel demo_env demo_configuration
              \<lparr>messages = messages demo_state @ AIMessage [] (Some demo_calls) # results\<rparr> w2 of
         (Inl e, w3) \<Rightarrow> (Inl (ModelFailure e), w3)
       | (Inr update, w3) \<Rightarrow>
           if routeModelOutput
                (add_messages
                   \<lparr>messages = messages demo_state @ AIMessage [] (Some demo_calls) # results\<rparr>
                   update) = ''tools''
           then
             (case toolNode demo_env
                     (add_messages
                        \<lparr>messages = messages demo_state @ AIMessage [] (Some demo_calls) # results\<rparr>
                        update) w3 of
                (results', w4) \<Rightarrow>
                  workflow 0 demo_env demo_configuration
                    (add_messages
                       (add_messages
                          \<lparr>messages = messages demo_state @ AIMessage [] (Some demo_calls) # results\<rparr>
                          update) results') w4)
           else
             (Inr (add_messages
                     \<lparr>messages = messages demo_state @ AIMessage [] (Some demo_calls) # results\<rparr>
                     update), w3))"
    by blast
  from run demo_tool_turn have eq: "results = demo_results" "w2 = demo_tools_world" by simp_all
  have fin: "routeModelOutput demo_final = ''__end__''"
    by (simp add: routeModelOutput_eq action_requests_def demo_final_def)
  from two have "workflow (Suc (Suc 0)) demo_env demo_configuration demo_state demo_world
      = (Inr demo_final, demo_final_world)"
    by (simp add: eq demo_second_turn demo_final_eq fin)
  moreover have "last (log demo_final_world) =
       Invoke (system_message demo_configuration (demo_time 3) #
               messages demo_state @ AIMessage [] (Some demo_calls) # demo_results)"
    by (simp add: demo_final_world_def demo_state_def)
  ultimately show ?thesis using run corr len eq by simp
qed

section \<open>The requests of move_items and clear_items\<close>

text \<open>
  What the handler of \<open>move_items\<close> receives: arguments that passed
  \<open>moveItemsSchema\<close> are an object with the two declared fields, an array and one
  of the two status names.
\<close>

lemma collect_two:
  "collect [a, b] = Inr ys \<Longrightarrow> \<exists>x y. a = Inr x \<and> b = Inr y \<and> ys = [x, y]"
  by (cases a; cases b) auto

lemma under_Inr: "under s r = Inr v \<Longrightarrow> r = Inr v"
  by (cases r) (auto simp: under_def)

lemma moveItemsSchema_result:
  assumes "safeParse moveItemsSchema (Some raw) = Inr input"
  shows "\<exists>ids t. input = JObj [(''itemIds'', JArr ids), (''targetType'', JStr t)]
           \<and> t \<in> {''pending'', ''completed''}"
proof -
  from assms obtain kvs ys where raw: "raw = JObj kvs"
    and ys: "collect [under (Key ''itemIds'') (safeParse (ZArray ZString) (map_of kvs ''itemIds'')),
                      under (Key ''targetType'')
                        (safeParse (ZEnum [''pending'', ''completed'']) (map_of kvs ''targetType''))]
             = Inr ys"
    and input: "input = JObj (zip [''itemIds'', ''targetType''] ys)"
    by (cases raw) (auto simp: moveItemsSchema_def split: sum.splits)
  from collect_two [OF ys] obtain x y
    where x: "safeParse (ZArray ZString) (map_of kvs ''itemIds'') = Inr x"
      and y: "safeParse (ZEnum [''pending'', ''completed'']) (map_of kvs ''targetType'') = Inr y"
      and xy: "ys = [x, y]"
    by (auto dest: under_Inr)
  from x obtain ids where "x = JArr ids"
    by (auto split: option.splits json.splits sum.splits)
  moreover from y obtain t where "y = JStr t" "t \<in> {''pending'', ''completed''}"
    by (auto split: option.splits json.splits if_splits)
  ultimately show ?thesis using input xy by simp
qed

text \<open>
  C3. For every input \<open>{itemIds, targetType}\<close>, the handler of \<open>move_items\<close> sends
  exactly one request: a PATCH to the path of the opposite status (\<open>/pending\<close> for the
  target \<open>completed\<close>, \<open>/completed\<close> for the target \<open>pending\<close>), whose body is
  the input, unchanged.
\<close>

theorem moveItems_one_patch:
  "log (snd (func moveItems E (JObj [(''itemIds'', ids), (''targetType'', JStr ''completed'')]) w))
     = log w @ [Http \<lparr>verb = PATCH, url = API_BASE_URL @ ''/pending'',
                      body = Some (JObj [(''itemIds'', ids), (''targetType'', JStr ''completed'')])\<rparr>]
   \<and> log (snd (func moveItems E (JObj [(''itemIds'', ids), (''targetType'', JStr ''pending'')]) w))
     = log w @ [Http \<lparr>verb = PATCH, url = API_BASE_URL @ ''/completed'',
                      body = Some (JObj [(''itemIds'', ids), (''targetType'', JStr ''pending'')])\<rparr>]"
  by (simp add: moveItems_def moveItems_func_def stringify_data_snd axios_log object_literal_def)

text \<open>
  C7. For every input \<open>{type}\<close>, the handler of \<open>clear_items\<close> sends exactly one
  request, a DELETE to \<open>/{type}\<close> (so never to the path of the other status), and
  returns the serialized data of the answer; a rejected request is raised.
\<close>

theorem clearItems_one_delete:
  "func clearItems E (JObj [(''type'', JStr t)]) w =
     (case remote E \<lparr>verb = DELETE, url = API_BASE_URL @ ''/'' @ t, body = None\<rparr> (ext w) of
        (r, x) \<Rightarrow>
          (case r of Inl e \<Rightarrow> Inl (AxiosError e) | Inr d \<Rightarrow> Inr (json_stringify E d),
           \<lparr>ext = x,
            log = log w @ [Http \<lparr>verb = DELETE, url = API_BASE_URL @ ''/'' @ t, body = None\<rparr>]\<rparr>))"
  by (simp add: clearItems_def clearItems_func_def stringify_data_def axios_def template_def
      split: prod.splits sum.splits)

section \<open>The router\<close>

lemma callModel_log:
  "callModel E cfg s w = (Inr update, w1) \<Longrightarrow> \<exists>input. log w1 = log w @ [Invoke input]"
  by (auto simp: callModel_def Let_def split: prod.splits sum.splits)

lemma demo_callModel_followup:
  "callModel demo_env demo_configuration demo_followup demo_world =
     (Inr [AIMessage ''Done.'' (Some [])],
      \<lparr>ext = 0, log = [Invoke (system_message demo_configuration (demo_time 0) #
                                 messages demo_followup)]\<rparr>)"
  by (simp add: callModel_def demo_env_def demo_followup_def demo_world_def)

text \<open>
  C2. For every state, \<open>routeModelOutput\<close> returns \<open>__end__\<close> exactly when the
  most recent message carries no Action Request, and \<open>tools\<close> exactly when it carries
  at least one. When the response of the model carries none, the run ends after that
  turn with the conversation extended by the response, and the only thing sent during
  the turn is the invocation of the model: no remote call is issued.
\<close>

theorem router_decides_on_requests:
  "(routeModelOutput s = ''__end__'') = (action_requests s = [])
   \<and> (routeModelOutput s = ''tools'') = (action_requests s \<noteq> [])
   \<and> (callModel E cfg s0 w = (Inr update, w1) \<and> action_requests (add_messages s0 update) = []
        \<longrightarrow> workflow (Suc n) E cfg s0 w = (Inr (add_messages s0 update), w1)
          \<and> (\<exists>input. log w1 = log w @ [Invoke input]))"
proof (intro conjI impI)
  show "(routeModelOutput s = ''__end__'') = (action_requests s = [])"
    by (simp add: routeModelOutput_eq)
  show "(routeModelOutput s = ''tools'') = (action_requests s \<noteq> [])"
    by (simp add: routeModelOutput_eq)
next
  assume a: "callModel E cfg s0 w = (Inr update, w1) \<and> action_requests (add_messages s0 update) = []"
  then show "workflow (Suc n) E cfg s0 w = (Inr (add_messages s0 update), w1)"
    by (simp add: workflow_end_turn)
  from a show "\<exists>input. log w1 = log w @ [Invoke input]"
    by (blast dest: callModel_log)
qed

theorem router_decides_on_requests_witness:
  "routeModelOutput (add_messages demo_followup [AIMessage ''Done.'' (Some [])]) = ''__end__''
   \<and> workflow (Suc 0) demo_env demo_configuration demo_followup demo_world =
       (Inr (add_messages demo_followup [AIMessage ''Done.'' (Some [])]),
        \<lparr>ext = 0, log = [Invoke (system_message demo_configuration (demo_time 0) #
                                   messages demo_followup)]\<rparr>)"
proof -
  have none: "action_requests (add_messages demo_followup [AIMessage ''Done.'' (Some [])]) = []"
    by (simp add: action_requests_def add_messages_def)
  from router_decides_on_requests
    [of "add_messages demo_followup [AIMessage ''Done.'' (Some [])]" demo_env demo_configuration
        demo_followup demo_world "[AIMessage ''Done.'' (Some [])]" _ 0]
    demo_callModel_followup none
  show ?thesis by simp
qed

text \<open>
  C10. \<open>routeModelOutput\<close> returns \<open>tools\<close> or \<open>__end__\<close> on every state. On a
  state without messages, and on a state whose last message has no \<open>tool_calls\<close>
  field, it returns \<open>__end__\<close>.
\<close>

theorem routeModelOutput_total:
  "routeModelOutput s \<in> {''tools'', ''__end__''}
   \<and> (messages s = [] \<longrightarrow> routeModelOutput s = ''__end__'')
   \<and> (messages s \<noteq> [] \<and> tool_calls (last (messages s)) = None
        \<longrightarrow> routeModelOutput s = ''__end__'')"
  by (simp add: routeModelOutput_eq action_requests_def)

theorem routeModelOutput_total_witness:
  "routeModelOutput \<lparr>messages = []\<rparr> = ''__end__'' \<and> routeModelOutput demo_state = ''__end__''"
  using routeModelOutput_total [of "\<lparr>messages = []\<rparr>"] routeModelOutput_total [of demo_state]
  by (simp add: demo_state_def)

text \<open>
  Grouping the condition as \<open>(x || 0) > 0\<close> would give the same router: a length is
  never negative.
\<close>

lemma routeModelOutput_grouping: "routeModelOutput s = routeModelOutput_grouped s"
proof -
  have "truthy (js_or v (Boolean ((0::int) > 0))) = js_gt (js_or v (Number 0)) 0"
    if "\<forall>n. v = Number n \<longrightarrow> 0 \<le> n" for v
    using that by (cases v) (auto simp: js_or_def js_gt_def)
  moreover have "\<forall>n. tool_calls_length m = Number n \<longrightarrow> 0 \<le> n" for m
    by (auto simp: tool_calls_length_def split: option.splits)
  ultimately show ?thesis
    by (simp add: routeModelOutput_def routeModelOutput_grouped_def)
qed

section \<open>The conversation only grows\<close>





section \<open>Validation of arguments\<close>

lemma itemSchema_missing_description:
  "map_of kvs ''description'' = None \<Longrightarrow>
   \<exists>is. safeParse itemSchema (Some (JObj kvs)) = Inl is
        \<and> Issue [Key ''description''] Required \<in> set is"
  by (cases "safeParse ZString (map_of kvs ''title'')")
     (simp_all add: itemSchema_def under_def)

lemma itemSchema_missing_title:
  "map_of kvs ''title'' = None \<Longrightarrow>
   \<exists>is. safeParse itemSchema (Some (JObj kvs)) = Inl is
        \<and> Issue [Key ''title''] Required \<in> set is"
  by (cases "safeParse ZString (map_of kvs ''description'')")
     (simp_all add: itemSchema_def under_def)

text \<open>
  C6. A request for \<open>add_pending_item\<close> whose arguments lack \<open>description\<close> (and
  likewise \<open>title\<close>) is rejected by validation: its Action Result is a validation
  error that names the missing field as required, and the outside is left as it was, so
  no request has been sent and no value has been supplied for the field.
\<close>

theorem missing_field_rejected:
  "(map_of kvs ''description'' = None \<longrightarrow>
      (\<exists>is. runTool E (ToolCall ''add_pending_item'' (JObj kvs) i) w
               = (ToolMessage i (ValidationFailed is), w)
            \<and> Issue [Key ''description''] Required \<in> set is))
   \<and> (map_of kvs ''title'' = None \<longrightarrow>
      (\<exists>is. runTool E (ToolCall ''add_pending_item'' (JObj kvs) i) w
               = (ToolMessage i (ValidationFailed is), w)
            \<and> Issue [Key ''title''] Required \<in> set is))"
proof (intro conjI impI)
  assume "map_of kvs ''description'' = None"
  from itemSchema_missing_description [OF this]
  obtain "is" where "safeParse itemSchema (Some (JObj kvs)) = Inl is"
    and "Issue [Key ''description''] Required \<in> set is" by blast
  then show "\<exists>is. runTool E (ToolCall ''add_pending_item'' (JObj kvs) i) w
               = (ToolMessage i (ValidationFailed is), w)
            \<and> Issue [Key ''description''] Required \<in> set is"
    by (simp add: runTool_def find_tools addPendingItem_def)
next
  assume "map_of kvs ''title'' = None"
  from itemSchema_missing_title [OF this]
  obtain "is" where "safeParse itemSchema (Some (JObj kvs)) = Inl is"
    and "Issue [Key ''title''] Required \<in> set is" by blast
  then show "\<exists>is. runTool E (ToolCall ''add_pending_item'' (JObj kvs) i) w
               = (ToolMessage i (ValidationFailed is), w)
            \<and> Issue [Key ''title''] Required \<in> set is"
    by (simp add: runTool_def find_tools addPendingItem_def)
qed

theorem missing_field_rejected_witness:
  "(\<exists>is. runTool demo_env (ToolCall ''add_pending_item'' (JObj [(''title'', JStr ''Review'')]) ''call_7'')
            demo_world = (ToolMessage ''call_7'' (ValidationFailed is), demo_world)
         \<and> Issue [Key ''description''] Required \<in> set is)
   \<and> (\<exists>is. runTool demo_env
            (ToolCall ''add_pending_item'' (JObj [(''description'', JStr ''Review the report'')]) ''call_8'')
            demo_world = (ToolMessage ''call_8'' (ValidationFailed is), demo_world)
         \<and> Issue [Key ''title''] Required \<in> set is)"
  using missing_field_rejected [of "[(''title'', JStr ''Review'')]" demo_env "''call_7''" demo_world]
    missing_field_rejected
      [of "[(''description'', JStr ''Review the report'')]" demo_env "''call_8''" demo_world]
  by simp

lemma collect_strings:
  "length ns = length ids \<Longrightarrow>
   collect (map (\<lambda>ix. under (Index (fst ix)) (safeParse ZString (Some (snd ix))))
                (zip ns (map JStr ids))) = Inr (map JStr ids)"
proof (induction ids arbitrary: ns)
  case Nil
  then show ?case by simp
next
  case (Cons a ids)
  then obtain n ns' where ns: "ns = n # ns'" "length ns' = length ids"
    by (cases ns) auto
  with Cons.IH [of ns'] show ?case by (simp add: under_def)
qed

lemma safeParse_string_array:
  "safeParse (ZArray ZString) (Some (JArr (map JStr ids))) = Inr (JArr (map JStr ids))"
  using collect_strings [of "[0 ..< length ids]" ids] by simp

lemma moveItemsSchema_accepts:
  "t \<in> {''pending'', ''completed''} \<Longrightarrow>
   safeParse moveItemsSchema
     (Some (JObj [(''itemIds'', JArr (map JStr ids)), (''targetType'', JStr t)]))
     = Inr (JObj [(''itemIds'', JArr (map JStr ids)), (''targetType'', JStr t)])"
  using safeParse_string_array [of ids] by (auto simp: moveItemsSchema_def under_def)

lemma moveItems_func_eq:
  "func moveItems E (JObj [(''itemIds'', ids), (''targetType'', JStr t)]) w =
     stringify_data E
       (axios E \<lparr>verb = PATCH,
                  url = API_BASE_URL @ ''/'' @ (if t = ''completed'' then ''pending'' else ''completed''),
                  body = Some (JObj [(''itemIds'', ids), (''targetType'', JStr t)])\<rparr> w)"
  by (simp add: moveItems_def moveItems_func_def object_literal_def)

lemma handler_outcome:
  "stringify_data E (axios E req w) =
     (case remote E req (ext w) of
        (r, x) \<Rightarrow>
          (case r of Inl e \<Rightarrow> Inl (AxiosError e) | Inr d \<Rightarrow> Inr (json_stringify E d),
           \<lparr>ext = x, log = log w @ [Http req]\<rparr>))"
  by (simp add: stringify_data_def axios_def split: prod.splits sum.splits)

text \<open>
  C4, as the program has it. The schema of \<open>move_items\<close> declares \<open>itemIds\<close> as an
  array of strings and gives no minimum length. A request whose \<open>itemIds\<close> is the
  empty array, with \<open>targetType\<close> \<open>pending\<close> or \<open>completed\<close>, passes validation;
  its Action Result is not a validation error, and one PATCH is sent to the path of the
  opposite status with the body \<open>{itemIds: [], targetType}\<close>.
\<close>

theorem empty_itemIds_accepted:
  assumes "t \<in> {''pending'', ''completed''}"
  shows "safeParse moveItemsSchema (Some (JObj [(''itemIds'', JArr []), (''targetType'', JStr t)]))
           = Inr (JObj [(''itemIds'', JArr []), (''targetType'', JStr t)])
       \<and> (\<exists>r w'. runTool E (ToolCall ''move_items''
                              (JObj [(''itemIds'', JArr []), (''targetType'', JStr t)]) i) w
                    = (ToolMessage i r, w')
              \<and> (\<forall>is. r \<noteq> ValidationFailed is)
              \<and> log w' = log w @
                   [Http \<lparr>verb = PATCH,
                          url = API_BASE_URL @ ''/'' @
                                (if t = ''completed'' then ''pending'' else ''completed''),
                          body = Some (JObj [(''itemIds'', JArr []), (''targetType'', JStr t)])\<rparr>])"
proof -
  let ?args = "JObj [(''itemIds'', JArr []), (''targetType'', JStr t)]"
  let ?req = "\<lparr>verb = PATCH,
                url = API_BASE_URL @ ''/'' @ (if t = ''completed'' then ''pending'' else ''completed''),
                body = Some ?args\<rparr>"
  from moveItemsSchema_accepts [OF assms, of "[]"]
  have ok: "safeParse moveItemsSchema (Some ?args) = Inr ?args" by simp
  have sch: "schema (moveItems :: ('a, 'b) tool) = moveItemsSchema" by (simp add: moveItems_def)
  obtain r x where rem: "remote E ?req (ext w) = (r, x)" by (cases "remote E ?req (ext w)")
  have "func moveItems E ?args w =
          (case r of Inl e \<Rightarrow> Inl (AxiosError e) | Inr d \<Rightarrow> Inr (json_stringify E d),
           \<lparr>ext = x, log = log w @ [Http ?req]\<rparr>)"
    using rem by (simp only: moveItems_func_eq handler_outcome prod.case)
  then have "\<exists>r w'. runTool E (ToolCall ''move_items'' ?args i) w = (ToolMessage i r, w')
              \<and> (\<forall>is. r \<noteq> ValidationFailed is) \<and> log w' = log w @ [Http ?req]"
    using ok sch by (cases r) (simp_all add: runTool_def find_tools)
  with ok show ?thesis by blast
qed

theorem empty_itemIds_accepted_witness:
  "safeParse moveItemsSchema (Some (JObj [(''itemIds'', JArr []), (''targetType'', JStr ''pending'')]))
           = Inr (JObj [(''itemIds'', JArr []), (''targetType'', JStr ''pending'')])
       \<and> (\<exists>r w'. runTool demo_env (ToolCall ''move_items''
                      (JObj [(''itemIds'', JArr []), (''targetType'', JStr ''pending'')]) ''call_9'')
                    demo_world
                    = (ToolMessage ''call_9'' r, w')
              \<and> (\<forall>is. r \<noteq> ValidationFailed is)
              \<and> log w' = log demo_world @
                   [Http \<lparr>verb = PATCH,
                          url = API_BASE_URL @ ''/completed'',
                          body = Some (JObj [(''itemIds'', JArr []), (''targetType'', JStr ''pending'')])\<rparr>])"
proof -
  have "''pending'' \<in> {''pending'', ''completed''}" by simp
  from empty_itemIds_accepted [OF this, of demo_env "''call_9''" demo_world]
  show ?thesis by simp
qed

theorem empty_itemIds_counterexample:
  "safeParse moveItemsSchema (Some (JObj [(''itemIds'', JArr []), (''targetType'', JStr ''completed'')]))
     = Inr (JObj [(''itemIds'', JArr []), (''targetType'', JStr ''completed'')])
   \<and> runTool demo_env
        (ToolCall ''move_items'' (JObj [(''itemIds'', JArr []), (''targetType'', JStr ''completed'')])
           ''call_1'')
        demo_world
     = (ToolMessage ''call_1'' (Succeeded ''http://localhost:3000/api/workflows/pending''),
        \<lparr>ext = 1,
         log = [Http \<lparr>verb = PATCH, url = ''http://localhost:3000/api/workflows/pending'',
                       body = Some (JObj [(''itemIds'', JArr []), (''targetType'', JStr ''completed'')])\<rparr>]\<rparr>)"
  by (simp add: moveItemsSchema_def under_def runTool_def find_tools moveItems_def moveItems_func_def
      object_literal_def stringify_data_def axios_def demo_env_def demo_world_def API_BASE_URL_def
      Let_def)

section \<open>Failures of remote calls\<close>

lemma find_in_set: "find P xs = Some x \<Longrightarrow> x \<in> set xs"
  by (induction xs) (auto split: if_splits)

lemma safeParse_object_result:
  "safeParse (ZObject fs) v = Inr input \<Longrightarrow> \<exists>kvs. input = JObj kvs"
  by (cases v) (auto split: json.splits sum.splits)

text \<open>
  Every tool of the registry, on arguments that passed its schema, sends one request and
  hands its outcome on: none of the handlers catches a rejection.
\<close>

lemma handler_form:
  assumes "find P TOOLS = Some t"
      and "safeParse (schema t) (Some args) = Inr input"
  shows "\<exists>req. func t E input w = stringify_data E (axios E req w)"
proof -
  from find_in_set [OF assms(1)]
  consider "t = addPendingItem" | "t = addCompletedItem" | "t = getPendingItems"
    | "t = getCompletedItems" | "t = moveItems" | "t = clearItems"
    by (auto simp: TOOLS_def)
  then show ?thesis
  proof cases
    case 1 then show ?thesis by (auto simp: addPendingItem_def addPendingItem_func_def)
  next
    case 2 then show ?thesis by (auto simp: addCompletedItem_def addCompletedItem_func_def)
  next
    case 3 then show ?thesis by (auto simp: getPendingItems_def getPendingItems_func_def)
  next
    case 4 then show ?thesis by (auto simp: getCompletedItems_def getCompletedItems_func_def)
  next
    case 5
    with assms(2) have "safeParse (ZObject [(''itemIds'', ZArray ZString),
        (''targetType'', ZEnum [''pending'', ''completed''])]) (Some args) = Inr input"
      by (simp add: moveItems_def moveItemsSchema_def)
    from safeParse_object_result [OF this] obtain kvs where "input = JObj kvs" by blast
    with 5 show ?thesis by (auto simp: moveItems_def moveItems_func_def Let_def)
  next
    case 6
    with assms(2)
    have "safeParse (ZObject [(''type'', ZEnum [''pending'', ''completed''])]) (Some args) = Inr input"
      by (simp add: clearItems_def)
    from safeParse_object_result [OF this] obtain kvs where "input = JObj kvs" by blast
    with 6 show ?thesis by (auto simp: clearItems_def clearItems_func_def Let_def)
  qed
qed

text \<open>
  Each handler sends one request, so "the request of a call" is the one entry that its
  handler adds to the log.
\<close>

lemma handler_sends_one:
  assumes "find P TOOLS = Some t"
      and "safeParse (schema t) (Some args) = Inr input"
  shows "\<exists>req. log (snd (func t E input w)) = log w @ [Http req]"
proof -
  from handler_form [OF assms, of E w]
  obtain req where "func t E input w = stringify_data E (axios E req w)" by blast
  then show ?thesis by (auto simp: stringify_data_snd axios_log)
qed

lemma runTool_remote_failure:
  assumes "find (\<lambda>t. name t = call_name c) TOOLS = Some (t :: ('w, 'd) tool)"
      and "safeParse (schema t) (Some (call_args c)) = Inr input"
      and "log (snd (func t (E :: ('w, 'd) env) input w)) = log w @ [Http req]"
      and "fst (remote E req (ext w)) = Inl err"
  shows "\<exists>w'. runTool E c w = (ToolMessage (call_id c) (CallFailed (AxiosError err)), w')"
proof -
  from handler_form [OF assms(1,2), of E w]
  obtain req' where f: "func t E input w = stringify_data E (axios E req' w)" by blast
  with assms(3) have "req' = req" by (simp add: stringify_data_snd axios_log)
  moreover from assms(4) obtain x where "remote E req (ext w) = (Inl err, x)"
    by (metis prod.collapse)
  ultimately
  have "func t E input w = (Inl (AxiosError err), \<lparr>ext = x, log = log w @ [Http req]\<rparr>)"
    by (simp add: f handler_outcome)
  with assms(1,2) show ?thesis by (simp add: runTool_def)
qed

text \<open>
  C5. Let the response of the model carry the batch \<open>before @ c # after\<close>, where
  \<open>c\<close> names a tool of the registry with valid arguments, let \<open>req\<close> be the
  request that the handler of \<open>c\<close> sends, and let the store reject \<open>req\<close> (with
  a transport error or a status, \<open>err\<close>) in the state in which it is sent; nothing is
  asked of the store's answers to other requests. Then the result of \<open>c\<close> is a
  failure result that carries \<open>err\<close> and the identifier of \<open>c\<close>; the requests
  before and after it are executed and have their results, one for each request of the
  batch; and the session goes on: what the run does next is to invoke the model on the
  conversation with all these results appended, and that invocation decides its outcome.
\<close>

theorem remote_failure_contained:
  assumes "callModel (E :: ('w, 'd) env) cfg s w0 =
             (Inr [AIMessage content (Some (before @ c # after))], w)"
      and "find (\<lambda>t. name t = call_name c) TOOLS = Some (t :: ('w, 'd) tool)"
      and "safeParse (schema t) (Some (call_args c)) = Inr input"
      and "runTools E before w = (rs1, w1)"
      and "log (snd (func t E input w1)) = log w1 @ [Http req]"
      and "fst (remote E req (ext w1)) = Inl err"
  shows "\<exists>w2 rs2 w3.
           runTool E c w1 = (ToolMessage (call_id c) (CallFailed (AxiosError err)), w2)
         \<and> runTools E after w2 = (rs2, w3)
         \<and> runTools E (before @ c # after) w =
             (rs1 @ ToolMessage (call_id c) (CallFailed (AxiosError err)) # rs2, w3)
         \<and> map correlation (rs1 @ ToolMessage (call_id c) (CallFailed (AxiosError err)) # rs2)
             = map (\<lambda>c. Some (call_id c)) (before @ c # after)
         \<and> workflow (Suc n) E cfg s w0 =
             workflow n E cfg
               \<lparr>messages = messages s @ AIMessage content (Some (before @ c # after)) #
                   rs1 @ ToolMessage (call_id c) (CallFailed (AxiosError err)) # rs2\<rparr> w3
         \<and> workflow (Suc (Suc n)) E cfg s w0 =
             (case callModel E cfg
                     \<lparr>messages = messages s @ AIMessage content (Some (before @ c # after)) #
                         rs1 @ ToolMessage (call_id c) (CallFailed (AxiosError err)) # rs2\<rparr> w3 of
                (Inl e, w4) \<Rightarrow> (Inl (ModelFailure e), w4)
              | (Inr update, w4) \<Rightarrow>
                  if routeModelOutput
                       (add_messages
                          \<lparr>messages = messages s @ AIMessage content (Some (before @ c # after)) #
                              rs1 @ ToolMessage (call_id c) (CallFailed (AxiosError err)) # rs2\<rparr>
                          update) = ''tools''
                  then
                    (case toolNode E
                            (add_messages
                               \<lparr>messages = messages s @ AIMessage content (Some (before @ c # after)) #
                                   rs1 @ ToolMessage (call_id c) (CallFailed (AxiosError err)) # rs2\<rparr>
                               update) w4 of
                       (results', w5) \<Rightarrow>
                         workflow n E cfg
                           (add_messages
                              (add_messages
                                 \<lparr>messages = messages s @ AIMessage content (Some (before @ c # after)) #
                                     rs1 @ ToolMessage (call_id c) (CallFailed (AxiosError err)) # rs2\<rparr>
                                 update) results') w5)
                  else
                    (Inr (add_messages
                            \<lparr>messages = messages s @ AIMessage content (Some (before @ c # after)) #
                                rs1 @ ToolMessage (call_id c) (CallFailed (AxiosError err)) # rs2\<rparr>
                            update), w4))"
proof -
  let ?m = "ToolMessage (call_id c) (CallFailed (AxiosError err))"
  let ?update = "[AIMessage content (Some (before @ c # after))]"
  from runTool_remote_failure [OF assms(2,3,5,6)]
  obtain w2 where one: "runTool E c w1 = (?m, w2)"
    by blast
  obtain rs2 w3 where rest: "runTools E after w2 = (rs2, w3)" by (cases "runTools E after w2")
  let ?s2 = "\<lparr>messages = messages s @ AIMessage content (Some (before @ c # after)) #
                 rs1 @ ?m # rs2\<rparr>"
  have all: "runTools E (before @ c # after) w = (rs1 @ ?m # rs2, w3)"
    by (simp add: runTools_append assms(4) one rest)
  from runTools_correlation [of E "before @ c # after" w] all
  have corr: "map correlation (rs1 @ ?m # rs2) = map (\<lambda>c. Some (call_id c)) (before @ c # after)"
    by simp
  have req: "action_requests (add_messages s ?update) = before @ c # after"
    by (simp add: action_requests_def add_messages_def)
  then have ne: "action_requests (add_messages s ?update) \<noteq> []" by simp
  from all req have run: "runTools E (action_requests (add_messages s ?update)) w = (rs1 @ ?m # rs2, w3)"
    by simp
  have step: "workflow (Suc k) E cfg s w0 = workflow k E cfg ?s2 w3" for k
    using workflow_tools_turn [OF assms(1) ne run, of k] by (simp add: add_messages_eq)
  have next_turn: "workflow (Suc (Suc n)) E cfg s w0 =
      (case callModel E cfg ?s2 w3 of
         (Inl e, w4) \<Rightarrow> (Inl (ModelFailure e), w4)
       | (Inr update, w4) \<Rightarrow>
           if routeModelOutput (add_messages ?s2 update) = ''tools'' then
             (case toolNode E (add_messages ?s2 update) w4 of (results', w5) \<Rightarrow>
                workflow n E cfg (add_messages (add_messages ?s2 update) results') w5)
           else (Inr (add_messages ?s2 update), w4))"
    by (simp only: step [of "Suc n"] workflow_Suc_eq [of n E cfg ?s2 w3])
  from one rest all corr step [of n] next_turn show ?thesis by blast
qed

lemma demo_first_tool:
  "runTools demo_env [demo_call_1] \<lparr>ext = 0, log = l\<rparr> =
     ([ToolMessage ''call_1'' (Succeeded ''http://localhost:3000/api/workflows/pending'')],
      \<lparr>ext = 1,
       log = l @ [Http \<lparr>verb = GET, url = ''http://localhost:3000/api/workflows/pending'',
                         body = None\<rparr>]\<rparr>)"
  by (simp add: demo_call_1_def runTool_def find_tools getPendingItems_def getPendingItems_func_def
      stringify_data_def axios_def demo_env_def API_BASE_URL_def)

text \<open>
  In the scripted environment the store rejects the POST of the second action only; the
  GET and the DELETE of the same batch are answered, and the session ends with the plain
  answer of the second model turn.
\<close>

theorem remote_failure_contained_witness:
  "fst (remote demo_env
          \<lparr>verb = GET, url = ''http://localhost:3000/api/workflows/pending'', body = None\<rparr> 1)
     = Inr ''http://localhost:3000/api/workflows/pending''
   \<and> fst (remote demo_env
          \<lparr>verb = POST, url = ''http://localhost:3000/api/workflows/pending'',
            body = Some (JObj [(''title'', JStr ''Review''),
                               (''description'', JStr ''Review the report'')])\<rparr> 1)
     = Inl (Status 500)
   \<and> runTools demo_env ([demo_call_1] @ demo_call_2 # [demo_call_3]) demo_model_world
     = (demo_results, demo_tools_world)
   \<and> map correlation demo_results
     = map (\<lambda>c. Some (call_id c)) ([demo_call_1] @ demo_call_2 # [demo_call_3])
   \<and> workflow (Suc (Suc 0)) demo_env demo_configuration demo_state demo_world
     = (Inr demo_final, demo_final_world)"
proof -
  let ?w1 = "\<lparr>ext = 1,
       log = log demo_model_world @
         [Http \<lparr>verb = GET, url = ''http://localhost:3000/api/workflows/pending'',
                body = None\<rparr>]\<rparr>"
  let ?req = "\<lparr>verb = POST, url = ''http://localhost:3000/api/workflows/pending'',
            body = Some (JObj [(''title'', JStr ''Review''),
                               (''description'', JStr ''Review the report'')])\<rparr>"
  let ?input = "JObj [(''title'', JStr ''Review''), (''description'', JStr ''Review the report'')]"
  have calls: "demo_calls = [demo_call_1] @ demo_call_2 # [demo_call_3]"
    by (simp add: demo_calls_def)
  have turn: "callModel demo_env demo_configuration demo_state demo_world =
      (Inr [AIMessage [] (Some ([demo_call_1] @ demo_call_2 # [demo_call_3]))], demo_model_world)"
    using demo_callModel by (simp add: demo_calls_def demo_model_world_def)
  have tool: "find (\<lambda>t. name t = call_name demo_call_2) TOOLS = Some (addPendingItem :: (nat, string) tool)"
    by (simp add: demo_call_2_def find_tools)
  have valid: "safeParse (schema (addPendingItem :: (nat, string) tool)) (Some (call_args demo_call_2))
      = Inr ?input"
    by (simp add: demo_call_2_def addPendingItem_def itemSchema_def under_def)
  have first: "runTools demo_env [demo_call_1] demo_model_world =
      ([ToolMessage ''call_1'' (Succeeded ''http://localhost:3000/api/workflows/pending'')], ?w1)"
    using demo_first_tool [of "log demo_model_world"] by (simp add: demo_model_world_def)
  have sent: "log (snd (func addPendingItem demo_env ?input ?w1)) = log ?w1 @ [Http ?req]"
    by (simp add: addPendingItem_def addPendingItem_func_def stringify_data_snd axios_log
        API_BASE_URL_def)
  have ok: "fst (remote demo_env
          \<lparr>verb = GET, url = ''http://localhost:3000/api/workflows/pending'', body = None\<rparr> 1)
     = Inr ''http://localhost:3000/api/workflows/pending''"
    by (simp add: demo_env_def)
  have rejected: "fst (remote demo_env ?req (ext ?w1)) = Inl (Status 500)"
    by (simp add: demo_env_def)
  from remote_failure_contained
    [where after = "[demo_call_3]" and n = 0, OF turn tool valid first sent rejected]
  obtain w2 rs2 w3
    where all: "runTools demo_env ([demo_call_1] @ demo_call_2 # [demo_call_3]) demo_model_world =
        ([ToolMessage ''call_1'' (Succeeded ''http://localhost:3000/api/workflows/pending'')] @
         ToolMessage (call_id demo_call_2) (CallFailed (AxiosError (Status 500))) # rs2, w3)"
      and corr: "map correlation
        ([ToolMessage ''call_1'' (Succeeded ''http://localhost:3000/api/workflows/pending'')] @
         ToolMessage (call_id demo_call_2) (CallFailed (AxiosError (Status 500))) # rs2)
        = map (\<lambda>c. Some (call_id c)) ([demo_call_1] @ demo_call_2 # [demo_call_3])"
      and two: "workflow (Suc (Suc 0)) demo_env demo_configuration demo_state demo_world =
        (case callModel demo_env demo_configuration
                \<lparr>messages = messages demo_state @
                    AIMessage [] (Some ([demo_call_1] @ demo_call_2 # [demo_call_3])) #
                    [ToolMessage ''call_1'' (Succeeded ''http://localhost:3000/api/workflows/pending'')] @
                    ToolMessage (call_id demo_call_2) (CallFailed (AxiosError (Status 500))) # rs2\<rparr> w3 of
           (Inl e, w4) \<Rightarrow> (Inl (ModelFailure e), w4)
         | (Inr update, w4) \<Rightarrow>
             if routeModelOutput
                  (add_messages
                     \<lparr>messages = messages demo_state @
                         AIMessage [] (Some ([demo_call_1] @ demo_call_2 # [demo_call_3])) #
                         [ToolMessage ''call_1'' (Succeeded ''http://localhost:3000/api/workflows/pending'')] @
                         ToolMessage (call_id demo_call_2) (CallFailed (AxiosError (Status 500))) # rs2\<rparr>
                     update) = ''tools''
             then
               (case toolNode demo_env
                       (add_messages
                          \<lparr>messages = messages demo_state @
                              AIMessage [] (Some ([demo_call_1] @ demo_call_2 # [demo_call_3])) #
                              [ToolMessage ''call_1'' (Succeeded ''http://localhost:3000/api/workflows/pending'')] @
                              ToolMessage (call_id demo_call_2) (CallFailed (AxiosError (Status 500))) # rs2\<rparr>
                          update) w4 of
                  (results', w5) \<Rightarrow>
                    workflow 0 demo_env demo_configuration
                      (add_messages
                         (add_messages
                            \<lparr>messages = messages demo_state @
                                AIMessage [] (Some ([demo_call_1] @ demo_call_2 # [demo_call_3])) #
                                [ToolMessage ''call_1'' (Succeeded ''http://localhost:3000/api/workflows/pending'')] @
                                ToolMessage (call_id demo_call_2) (CallFailed (AxiosError (Status 500))) # rs2\<rparr>
                            update) results') w5)
             else
               (Inr (add_messages
                       \<lparr>messages = messages demo_state @
                           AIMessage [] (Some ([demo_call_1] @ demo_call_2 # [demo_call_3])) #
                           [ToolMessage ''call_1'' (Succeeded ''http://localhost:3000/api/workflows/pending'')] @
                           ToolMessage (call_id demo_call_2) (CallFailed (AxiosError (Status 500))) # rs2\<rparr>
                       update), w4))"
    by blast
  from all have "runTools demo_env demo_calls demo_model_world =
        ([ToolMessage ''call_1'' (Succeeded ''http://localhost:3000/api/workflows/pending'')] @
         ToolMessage (call_id demo_call_2) (CallFailed (AxiosError (Status 500))) # rs2, w3)"
    by (simp only: calls [symmetric])
  with demo_tool_turn
  have eq: "[ToolMessage ''call_1'' (Succeeded ''http://localhost:3000/api/workflows/pending'')] @
         ToolMessage (call_id demo_call_2) (CallFailed (AxiosError (Status 500))) # rs2 = demo_results"
      "w3 = demo_tools_world"
    by simp_all
  have fin: "routeModelOutput demo_final = ''__end__''"
    by (simp add: routeModelOutput_eq action_requests_def demo_final_def)
  from two have run: "workflow (Suc (Suc 0)) demo_env demo_configuration demo_state demo_world
      = (Inr demo_final, demo_final_world)"
    by (simp only: eq calls [symmetric]) (simp add: demo_second_turn demo_final_eq fin)
  have rejected1: "fst (remote demo_env ?req 1) = Inl (Status 500)"
    by (simp add: demo_env_def)
  from all have all': "runTools demo_env ([demo_call_1] @ demo_call_2 # [demo_call_3])
      demo_model_world = (demo_results, demo_tools_world)"
    by (simp only: eq)
  from corr have corr': "map correlation demo_results
      = map (\<lambda>c. Some (call_id c)) ([demo_call_1] @ demo_call_2 # [demo_call_3])"
    by (simp only: eq)
  from ok rejected1 all' corr' run show ?thesis by (intro conjI)
qed

section \<open>The system message\<close>

lemma substitution_plain: "CHR ''$'' \<notin> set rep \<Longrightarrow> substitution m b a rep = rep"
  by (induction m b a rep rule: substitution.induct) auto

lemma prefix_within:
  assumes "prefix pat (pre @ pat @ post)" and "pre \<noteq> []" and "pat \<noteq> []"
  shows "prefix pat (pre @ butlast pat)"
proof -
  have "pre @ pat @ post = (pre @ butlast pat) @ (last pat # post)"
    using assms(3) by simp
  moreover have "length pat \<le> length (pre @ butlast pat)"
    using assms(2,3) by (cases pre) auto
  ultimately show ?thesis
    using assms(1) by (metis prefix_length_prefix prefixI)
qed

text \<open>The split is at the first occurrence of the pattern.\<close>

lemma find_split_first:
  assumes "pat \<noteq> []" and "\<not> sublist pat (pre @ butlast pat)"
  shows "find_split pat (pre @ pat @ post) = Some (pre, post)"
  using assms(2)
proof (induction pre)
  case Nil
  with assms(1) show ?case by (cases pat) auto
next
  case (Cons c pre)
  have np: "\<not> prefix pat ((c # pre) @ pat @ post)"
  proof
    assume "prefix pat ((c # pre) @ pat @ post)"
    from prefix_within [OF this _ assms(1)] have "prefix pat ((c # pre) @ butlast pat)" by simp
    then have "sublist pat ((c # pre) @ butlast pat)" by (rule prefix_imp_sublist)
    with Cons.prems show False by simp
  qed
  from Cons.prems have "\<not> sublist pat (pre @ butlast pat)"
    by (auto simp: sublist_Cons_right)
  from Cons.IH [OF this] np show ?case by simp
qed

lemma replace_first:
  assumes "pat \<noteq> []" and "\<not> sublist pat (pre @ butlast pat)" and "CHR ''$'' \<notin> set rep"
  shows "replace (pre @ pat @ post) pat rep = pre @ rep @ post"
  by (simp add: replace_def find_split_first [OF assms(1,2)] substitution_plain [OF assms(3)])

text \<open>
  C8. Let the configured template hold the placeholder \<open>{system_time}\<close>, first at the
  position after \<open>pre\<close>, let the model load, and let \<open>now\<close> be the time the
  clock gives in this call of \<open>callModel\<close> (an ISO timestamp has no dollar sign).
  Then \<open>callModel\<close> invokes the model once, on the messages of the state preceded by the system message
  whose text is the template with \<open>now\<close> in the place of the placeholder, followed by
  the fixed instructions; and its update holds the response of the model alone, so the
  system message does not enter the conversation.
\<close>

theorem system_directive:
  assumes "systemPromptTemplate cfg = pre @ ''{system_time}'' @ post"
      and "\<not> sublist ''{system_time}'' (pre @ ''{system_time'')"
      and "load_chat_model E (model cfg) (ext w) = (Inr u, x0)"
      and "clock E x0 = (now, x)"
      and "CHR ''$'' \<notin> set now"
  shows "callModel (E :: ('w, 'd) env) cfg s w =
     (case chat_model E (model cfg) (map tool_declaration (TOOLS :: ('w, 'd) tool list))
             (SystemMessage (pre @ now @ post @ instructions) # messages s) x of
        (r, x') \<Rightarrow>
          (case r of Inl e \<Rightarrow> Inl e | Inr (content, calls) \<Rightarrow> Inr [AIMessage content calls],
           \<lparr>ext = x',
            log = log w @ [Invoke (SystemMessage (pre @ now @ post @ instructions) # messages s)]\<rparr>))"
proof -
  have "butlast ''{system_time}'' = ''{system_time''" by simp
  with assms(2) have "\<not> sublist ''{system_time}'' (pre @ butlast ''{system_time}'')" by simp
  from replace_first [OF _ this assms(5), of post]
  have "replace (systemPromptTemplate cfg) ''{system_time}'' now = pre @ now @ post"
    by (simp add: assms(1))
  then have "system_message cfg now = SystemMessage (pre @ now @ post @ instructions)"
    by (simp add: system_message_def)
  then show ?thesis
    by (simp add: callModel_def assms(3,4) split: prod.splits sum.splits)
qed

theorem system_directive_witness:
  "callModel demo_env demo_configuration demo_state demo_world =
     (Inr [AIMessage [] (Some demo_calls)],
      \<lparr>ext = 0,
       log = [Invoke [SystemMessage (''System time: '' @ demo_time 0 @ ''.'' @ instructions),
                      HumanMessage ''What is pending?'']]\<rparr>)
   \<and> callModel demo_env demo_configuration demo_followup \<lparr>ext = 3, log = []\<rparr> =
     (Inr [AIMessage ''Done.'' (Some [])],
      \<lparr>ext = 3,
       log = [Invoke [SystemMessage (''System time: '' @ demo_time 3 @ ''.'' @ instructions),
                      HumanMessage ''What is pending?'', HumanMessage ''Anything else?'']]\<rparr>)"
proof -
  have tmpl: "systemPromptTemplate demo_configuration = ''System time: '' @ ''{system_time}'' @ ''.''"
    by (simp add: demo_configuration_def)
  have first: "\<not> sublist ''{system_time}'' (''System time: '' @ ''{system_time'')"
    by (simp add: sublist_Cons_right)
  have l0: "load_chat_model demo_env (model demo_configuration) (ext demo_world) = (Inr (), 0)"
    by (simp add: demo_env_def demo_world_def)
  have l3: "load_chat_model demo_env (model demo_configuration) (ext \<lparr>ext = 3, log = []\<rparr>)
      = (Inr (), 3)"
    by (simp add: demo_env_def)
  have c0: "clock demo_env 0 = (demo_time 0, 0)"
    by (simp add: demo_env_def)
  have c3: "clock demo_env 3 = (demo_time 3, 3)"
    by (simp add: demo_env_def)
  have d0: "CHR ''$'' \<notin> set (demo_time 0)" by (simp add: demo_time_def)
  have d3: "CHR ''$'' \<notin> set (demo_time 3)" by (simp add: demo_time_def)
  from system_directive [OF tmpl first l0 c0 d0, of demo_state]
    system_directive [OF tmpl first l3 c3 d3, of demo_followup]
  show ?thesis
    by (simp add: demo_env_def demo_state_def demo_followup_def demo_world_def)
qed

end
